theory Spec2Isabelle
  imports Main "HOL-Library.Sublist"
begin

section \<open>The policy subcommands of \<open>command/ca/policy/actions\<close>\<close>

text \<open>
  The six source files define one subcommand each: \<open>cn-regex\<close>, \<open>uri-constraint\<close>,
  \<open>email-regex\<close>, \<open>uri-regex\<close>, \<open>dns-regex\<close> and \<open>principal-regex\<close>. Every action
  reads the positional arguments, creates an admin client, retrieves the policy, picks one
  field of the policy by the context flags, replaces it by the result of
  \<open>addOrRemoveArguments\<close>, and sends the policy back with \<open>updatePolicy\<close>.
\<close>

subsection \<open>The policy document\<close>

text \<open>
  The policy type comes from an external package. The records below hold the fields that
  the six actions read and write; a field that exists under two parents in Go
  (\<open>Ssh.Host.Allow.DnsRegex\<close> and \<open>X509.Allow.DnsRegex\<close>) gets the parent as a prefix
  here, since record fields are global names.
\<close>

record X509Names =
  DnsRegex :: "string list"
  EmailRegex :: "string list"
  UriRegex :: "string list"
  CommonNameRegex :: "string list"
  UriConstraints :: "string list"

record SSHHostNames =
  HostDnsRegex :: "string list"
  HostPrincipalRegex :: "string list"

record SSHUserNames =
  UserEmailRegex :: "string list"
  UserPrincipalRegex :: "string list"

record 'n AllowDeny =
  Allow :: 'n
  Deny :: 'n

record SSHPolicy =
  Host :: "SSHHostNames AllowDeny"
  User :: "SSHUserNames AllowDeny"

record Policy =
  X509 :: "X509Names AllowDeny"
  Ssh :: SSHPolicy

subsection \<open>Context, collaborators, errors\<close>

text \<open>
  \<open>Ctx\<close> holds what an action reads from its context: the five flags of
  \<open>policycontext\<close> (independent booleans, tested in the order of the source's
  \<open>switch\<close>), the positional arguments, the \<open>--remove\<close> flag, and the provisioner
  returned by \<open>retrieveAndUnsetProvisionerFlagIfRequired\<close>.
\<close>

record Ctx =
  IsSSHHostPolicy :: bool
  IsSSHUserPolicy :: bool
  IsX509Policy :: bool
  IsAllow :: bool
  IsDeny :: bool
  Args :: "string list"
  RemoveFlag :: bool
  Provisioner :: string

datatype AdminClient = AdminClient string

text \<open>
  An error made outside these files is known by its message only (\<open>cause\<close>). The errors
  the actions build themselves are \<open>errs.TooFewArguments\<close>, \<open>errors.New msg\<close>,
  \<open>fmt.Errorf\<close> wrapping a cause behind a prefix, and the error of \<open>prettyPrint\<close>
  returned as it is.
\<close>

type_synonym cause = string

datatype error =
    TooFewArguments
  | ErrorsNew string
  | Errorf string cause
  | Passed cause

datatype outcome = Returned "error option" | Panicked string

text \<open>
  The functions the actions call that are not in the source files are parameters of the
  model. \<open>addOrRemoveArguments\<close> is called with the current field, the arguments and the
  remove flag, and its one result is assigned to the field.
\<close>

record Env =
  NewAdminClient :: "cause + AdminClient"
  retrieveAndInitializePolicy :: "AdminClient \<Rightarrow> string \<Rightarrow> cause + Policy"
  addOrRemoveArguments :: "string list \<Rightarrow> string list \<Rightarrow> bool \<Rightarrow> string list"
  updatePolicy :: "AdminClient \<Rightarrow> Policy \<Rightarrow> string \<Rightarrow> cause + Policy"
  prettyPrint :: "Policy \<Rightarrow> cause option"

text \<open>
  What a run of an action leaves behind: the calls it made to the outside, in order, the
  policy document it holds in memory when it ends (\<open>None\<close> when none was retrieved), and
  how it ended.
\<close>

datatype event =
    CallNewAdminClient
  | CallRetrievePolicy AdminClient string
  | CallUpdatePolicy AdminClient Policy string
  | CallPrettyPrint Policy

record Run =
  calls :: "event list"
  document :: "Policy option"
  result :: outcome

text \<open>The end of every action: \<open>updatePolicy\<close>, then \<open>prettyPrint\<close> of its answer.\<close>

definition updateAndPrint :: "Env \<Rightarrow> AdminClient \<Rightarrow> string \<Rightarrow> Policy \<Rightarrow> Run" where
  "updateAndPrint env client provisioner policy =
     (case updatePolicy env client policy provisioner of
        Inl err \<Rightarrow>
          \<lparr>calls = [CallNewAdminClient, CallRetrievePolicy client provisioner,
                    CallUpdatePolicy client policy provisioner],
           document = Some policy,
           result = Returned (Some (Errorf ''error updating policy: '' err))\<rparr>
      | Inr updatedPolicy \<Rightarrow>
          \<lparr>calls = [CallNewAdminClient, CallRetrievePolicy client provisioner,
                    CallUpdatePolicy client policy provisioner, CallPrettyPrint updatedPolicy],
           document = Some policy,
           result = Returned (map_option Passed (prettyPrint env updatedPolicy))\<rparr>)"

text \<open>An early exit of the \<open>switch\<close>, after the policy was retrieved and before any assignment.\<close>

definition stopAfterRetrieve :: "AdminClient \<Rightarrow> string \<Rightarrow> Policy \<Rightarrow> outcome \<Rightarrow> Run" where
  "stopAfterRetrieve client provisioner policy r =
     \<lparr>calls = [CallNewAdminClient, CallRetrievePolicy client provisioner],
      document = Some policy, result = r\<rparr>"

text \<open>
  The beginning of every action: the argument check, \<open>cautils.NewAdminClient\<close>,
  \<open>retrieveAndInitializePolicy\<close>. The continuation \<open>body\<close> is the action's \<open>switch\<close>.
\<close>

definition withPolicy ::
  "Env \<Rightarrow> Ctx \<Rightarrow> (AdminClient \<Rightarrow> string \<Rightarrow> Policy \<Rightarrow> Run) \<Rightarrow> Run" where
  "withPolicy env ctx body =
     (let provisioner = Provisioner ctx; args = Args ctx in
      if length args = 0 then
        \<lparr>calls = [], document = None, result = Returned (Some TooFewArguments)\<rparr>
      else
        (case NewAdminClient env of
           Inl err \<Rightarrow>
             \<lparr>calls = [CallNewAdminClient], document = None,
              result = Returned (Some (Errorf ''error creating admin client: '' err))\<rparr>
         | Inr client \<Rightarrow>
             (case retrieveAndInitializePolicy env client provisioner of
                Inl err \<Rightarrow>
                  \<lparr>calls = [CallNewAdminClient, CallRetrievePolicy client provisioner],
                   document = None,
                   result = Returned (Some (Errorf ''error retrieving policy: '' err))\<rparr>
              | Inr policy \<Rightarrow> body client provisioner policy)))"

subsection \<open>The six actions\<close>

definition commonNameRegexAction :: "Env \<Rightarrow> Ctx \<Rightarrow> Run" where
  "commonNameRegexAction env ctx =
     withPolicy env ctx (\<lambda>client provisioner policy.
       let args = Args ctx; shouldRemove = RemoveFlag ctx in
       if IsSSHHostPolicy ctx then
         stopAfterRetrieve client provisioner policy
           (Returned (Some (ErrorsNew ''SSH host policy does not support common name regex patterns'')))
       else if IsSSHUserPolicy ctx then
         stopAfterRetrieve client provisioner policy
           (Returned (Some (ErrorsNew ''SSH user policy does not support common name regex patterns'')))
       else if IsX509Policy ctx then
         (if IsAllow ctx then
            updateAndPrint env client provisioner
              (policy\<lparr>X509 := (X509 policy)\<lparr>Allow := (Allow (X509 policy))
                 \<lparr>CommonNameRegex := addOrRemoveArguments env
                    (CommonNameRegex (Allow (X509 policy))) args shouldRemove\<rparr>\<rparr>\<rparr>)
          else if IsDeny ctx then
            updateAndPrint env client provisioner
              (policy\<lparr>X509 := (X509 policy)\<lparr>Deny := (Deny (X509 policy))
                 \<lparr>CommonNameRegex := addOrRemoveArguments env
                    (CommonNameRegex (Deny (X509 policy))) args shouldRemove\<rparr>\<rparr>\<rparr>)
          else stopAfterRetrieve client provisioner policy
                 (Panicked ''no allow nor deny context set''))
       else stopAfterRetrieve client provisioner policy
              (Panicked ''no SSH nor X.509 context set''))"

definition uriConstraintAction :: "Env \<Rightarrow> Ctx \<Rightarrow> Run" where
  "uriConstraintAction env ctx =
     withPolicy env ctx (\<lambda>client provisioner policy.
       let args = Args ctx; shouldRemove = RemoveFlag ctx in
       if IsSSHHostPolicy ctx then
         stopAfterRetrieve client provisioner policy
           (Returned (Some (ErrorsNew ''SSH host policy does not support URI constraints'')))
       else if IsSSHUserPolicy ctx then
         stopAfterRetrieve client provisioner policy
           (Returned (Some (ErrorsNew ''SSH user policy does not support URI constraints'')))
       else if IsX509Policy ctx then
         (if IsAllow ctx then
            updateAndPrint env client provisioner
              (policy\<lparr>X509 := (X509 policy)\<lparr>Allow := (Allow (X509 policy))
                 \<lparr>UriConstraints := addOrRemoveArguments env
                    (UriConstraints (Allow (X509 policy))) args shouldRemove\<rparr>\<rparr>\<rparr>)
          else if IsDeny ctx then
            updateAndPrint env client provisioner
              (policy\<lparr>X509 := (X509 policy)\<lparr>Deny := (Deny (X509 policy))
                 \<lparr>UriConstraints := addOrRemoveArguments env
                    (UriConstraints (Deny (X509 policy))) args shouldRemove\<rparr>\<rparr>\<rparr>)
          else stopAfterRetrieve client provisioner policy
                 (Panicked ''no allow nor deny context set''))
       else stopAfterRetrieve client provisioner policy
              (Panicked ''no SSH nor X.509 context set''))"

definition emailRegexAction :: "Env \<Rightarrow> Ctx \<Rightarrow> Run" where
  "emailRegexAction env ctx =
     withPolicy env ctx (\<lambda>client provisioner policy.
       let args = Args ctx; shouldRemove = RemoveFlag ctx in
       if IsSSHHostPolicy ctx then
         stopAfterRetrieve client provisioner policy
           (Returned (Some (ErrorsNew ''SSH host policy does not support email regex patterns'')))
       else if IsSSHUserPolicy ctx then
         (if IsAllow ctx then
            updateAndPrint env client provisioner
              (policy\<lparr>Ssh := (Ssh policy)\<lparr>User := (User (Ssh policy))
                 \<lparr>Allow := (Allow (User (Ssh policy)))
                    \<lparr>UserEmailRegex := addOrRemoveArguments env
                       (UserEmailRegex (Allow (User (Ssh policy)))) args shouldRemove\<rparr>\<rparr>\<rparr>\<rparr>)
          else if IsDeny ctx then
            updateAndPrint env client provisioner
              (policy\<lparr>Ssh := (Ssh policy)\<lparr>User := (User (Ssh policy))
                 \<lparr>Deny := (Deny (User (Ssh policy)))
                    \<lparr>UserEmailRegex := addOrRemoveArguments env
                       (UserEmailRegex (Deny (User (Ssh policy)))) args shouldRemove\<rparr>\<rparr>\<rparr>\<rparr>)
          else stopAfterRetrieve client provisioner policy
                 (Panicked ''no allow nor deny context set''))
       else if IsX509Policy ctx then
         (if IsAllow ctx then
            updateAndPrint env client provisioner
              (policy\<lparr>X509 := (X509 policy)\<lparr>Allow := (Allow (X509 policy))
                 \<lparr>EmailRegex := addOrRemoveArguments env
                    (EmailRegex (Allow (X509 policy))) args shouldRemove\<rparr>\<rparr>\<rparr>)
          else if IsDeny ctx then
            updateAndPrint env client provisioner
              (policy\<lparr>X509 := (X509 policy)\<lparr>Deny := (Deny (X509 policy))
                 \<lparr>EmailRegex := addOrRemoveArguments env
                    (EmailRegex (Deny (X509 policy))) args shouldRemove\<rparr>\<rparr>\<rparr>)
          else stopAfterRetrieve client provisioner policy
                 (Panicked ''no allow nor deny context set''))
       else stopAfterRetrieve client provisioner policy
              (Panicked ''no SSH nor X.509 context set''))"

definition uriRegexAction :: "Env \<Rightarrow> Ctx \<Rightarrow> Run" where
  "uriRegexAction env ctx =
     withPolicy env ctx (\<lambda>client provisioner policy.
       let args = Args ctx; shouldRemove = RemoveFlag ctx in
       if IsSSHHostPolicy ctx then
         stopAfterRetrieve client provisioner policy
           (Returned (Some (ErrorsNew ''SSH host policy does not support URI regex patterns'')))
       else if IsSSHUserPolicy ctx then
         stopAfterRetrieve client provisioner policy
           (Returned (Some (ErrorsNew ''SSH user policy does not support URI regex patterns'')))
       else if IsX509Policy ctx then
         (if IsAllow ctx then
            updateAndPrint env client provisioner
              (policy\<lparr>X509 := (X509 policy)\<lparr>Allow := (Allow (X509 policy))
                 \<lparr>UriRegex := addOrRemoveArguments env
                    (UriRegex (Allow (X509 policy))) args shouldRemove\<rparr>\<rparr>\<rparr>)
          else if IsDeny ctx then
            updateAndPrint env client provisioner
              (policy\<lparr>X509 := (X509 policy)\<lparr>Deny := (Deny (X509 policy))
                 \<lparr>UriRegex := addOrRemoveArguments env
                    (UriRegex (Deny (X509 policy))) args shouldRemove\<rparr>\<rparr>\<rparr>)
          else stopAfterRetrieve client provisioner policy
                 (Panicked ''no allow nor deny context set''))
       else stopAfterRetrieve client provisioner policy
              (Panicked ''no SSH nor X.509 context set''))"

definition dnsRegexAction :: "Env \<Rightarrow> Ctx \<Rightarrow> Run" where
  "dnsRegexAction env ctx =
     withPolicy env ctx (\<lambda>client provisioner policy.
       let args = Args ctx; shouldRemove = RemoveFlag ctx in
       if IsSSHHostPolicy ctx then
         (if IsAllow ctx then
            updateAndPrint env client provisioner
              (policy\<lparr>Ssh := (Ssh policy)\<lparr>Host := (Host (Ssh policy))
                 \<lparr>Allow := (Allow (Host (Ssh policy)))
                    \<lparr>HostDnsRegex := addOrRemoveArguments env
                       (HostDnsRegex (Allow (Host (Ssh policy)))) args shouldRemove\<rparr>\<rparr>\<rparr>\<rparr>)
          else if IsDeny ctx then
            updateAndPrint env client provisioner
              (policy\<lparr>Ssh := (Ssh policy)\<lparr>Host := (Host (Ssh policy))
                 \<lparr>Deny := (Deny (Host (Ssh policy)))
                    \<lparr>HostDnsRegex := addOrRemoveArguments env
                       (HostDnsRegex (Deny (Host (Ssh policy)))) args shouldRemove\<rparr>\<rparr>\<rparr>\<rparr>)
          else stopAfterRetrieve client provisioner policy
                 (Panicked ''no allow nor deny context set''))
       else if IsSSHUserPolicy ctx then
         stopAfterRetrieve client provisioner policy
           (Returned (Some (ErrorsNew ''SSH user policy does not support DNS regex patterns'')))
       else if IsX509Policy ctx then
         (if IsAllow ctx then
            updateAndPrint env client provisioner
              (policy\<lparr>X509 := (X509 policy)\<lparr>Allow := (Allow (X509 policy))
                 \<lparr>DnsRegex := addOrRemoveArguments env
                    (DnsRegex (Allow (X509 policy))) args shouldRemove\<rparr>\<rparr>\<rparr>)
          else if IsDeny ctx then
            updateAndPrint env client provisioner
              (policy\<lparr>X509 := (X509 policy)\<lparr>Deny := (Deny (X509 policy))
                 \<lparr>DnsRegex := addOrRemoveArguments env
                    (DnsRegex (Deny (X509 policy))) args shouldRemove\<rparr>\<rparr>\<rparr>)
          else stopAfterRetrieve client provisioner policy
                 (Panicked ''no allow nor deny context set''))
       else stopAfterRetrieve client provisioner policy
              (Panicked ''no SSH nor X.509 context set''))"

definition principalRegexAction :: "Env \<Rightarrow> Ctx \<Rightarrow> Run" where
  "principalRegexAction env ctx =
     withPolicy env ctx (\<lambda>client provisioner policy.
       let args = Args ctx; shouldRemove = RemoveFlag ctx in
       if IsSSHHostPolicy ctx then
         (if IsAllow ctx then
            updateAndPrint env client provisioner
              (policy\<lparr>Ssh := (Ssh policy)\<lparr>Host := (Host (Ssh policy))
                 \<lparr>Allow := (Allow (Host (Ssh policy)))
                    \<lparr>HostPrincipalRegex := addOrRemoveArguments env
                       (HostPrincipalRegex (Allow (Host (Ssh policy)))) args shouldRemove\<rparr>\<rparr>\<rparr>\<rparr>)
          else if IsDeny ctx then
            updateAndPrint env client provisioner
              (policy\<lparr>Ssh := (Ssh policy)\<lparr>Host := (Host (Ssh policy))
                 \<lparr>Deny := (Deny (Host (Ssh policy)))
                    \<lparr>HostPrincipalRegex := addOrRemoveArguments env
                       (HostPrincipalRegex (Deny (Host (Ssh policy)))) args shouldRemove\<rparr>\<rparr>\<rparr>\<rparr>)
          else stopAfterRetrieve client provisioner policy
                 (Panicked ''no allow nor deny context set''))
       else if IsSSHUserPolicy ctx then
         (if IsAllow ctx then
            updateAndPrint env client provisioner
              (policy\<lparr>Ssh := (Ssh policy)\<lparr>User := (User (Ssh policy))
                 \<lparr>Allow := (Allow (User (Ssh policy)))
                    \<lparr>UserPrincipalRegex := addOrRemoveArguments env
                       (UserPrincipalRegex (Allow (User (Ssh policy)))) args shouldRemove\<rparr>\<rparr>\<rparr>\<rparr>)
          else if IsDeny ctx then
            updateAndPrint env client provisioner
              (policy\<lparr>Ssh := (Ssh policy)\<lparr>User := (User (Ssh policy))
                 \<lparr>Deny := (Deny (User (Ssh policy)))
                    \<lparr>UserPrincipalRegex := addOrRemoveArguments env
                       (UserPrincipalRegex (Deny (User (Ssh policy)))) args shouldRemove\<rparr>\<rparr>\<rparr>\<rparr>)
          else stopAfterRetrieve client provisioner policy
                 (Panicked ''no allow nor deny context set''))
       else if IsX509Policy ctx then
         stopAfterRetrieve client provisioner policy
           (Returned (Some (ErrorsNew ''X.509 policy does not support principal regex patterns'')))
       else stopAfterRetrieve client provisioner policy
              (Panicked ''no SSH nor X.509 context set''))"

text \<open>The subcommands by name, each bound to its action as in its \<open>cli.Command\<close>.\<close>

datatype Subcommand =
    Cmd_cn_regex
  | Cmd_uri_constraint
  | Cmd_uri_regex
  | Cmd_email_regex
  | Cmd_dns_regex
  | Cmd_principal_regex

fun action :: "Subcommand \<Rightarrow> Env \<Rightarrow> Ctx \<Rightarrow> Run" where
  "action Cmd_cn_regex = commonNameRegexAction"
| "action Cmd_uri_constraint = uriConstraintAction"
| "action Cmd_uri_regex = uriRegexAction"
| "action Cmd_email_regex = emailRegexAction"
| "action Cmd_dns_regex = dnsRegexAction"
| "action Cmd_principal_regex = principalRegexAction"

subsection \<open>Branches, kinds and the selected field\<close>

text \<open>
  The three policy branches, the pattern kinds of the specification's legality table
  (section 4.3) and the two lists of a branch.
\<close>

datatype Branch = X509Branch | SSHHostBranch | SSHUserBranch
datatype Kind = DNS | Email | URI | IPRange | CommonName | SSHPrincipal
datatype ListSel = AllowList | DenyList

text \<open>
  The legality table as the specification states it (section 4.3), row by row. It is
  written from the specification's words, to be compared with the \<open>switch\<close> of each action.
\<close>

fun legalityTable :: "Branch \<Rightarrow> Kind \<Rightarrow> bool" where
  "legalityTable X509Branch DNS = True"
| "legalityTable SSHHostBranch DNS = True"
| "legalityTable SSHUserBranch DNS = False"
| "legalityTable X509Branch Email = True"
| "legalityTable SSHHostBranch Email = False"
| "legalityTable SSHUserBranch Email = True"
| "legalityTable X509Branch URI = True"
| "legalityTable SSHHostBranch URI = False"
| "legalityTable SSHUserBranch URI = False"
| "legalityTable X509Branch IPRange = True"
| "legalityTable SSHHostBranch IPRange = False"
| "legalityTable SSHUserBranch IPRange = False"
| "legalityTable X509Branch CommonName = True"
| "legalityTable SSHHostBranch CommonName = False"
| "legalityTable SSHUserBranch CommonName = False"
| "legalityTable X509Branch SSHPrincipal = False"
| "legalityTable SSHHostBranch SSHPrincipal = True"
| "legalityTable SSHUserBranch SSHPrincipal = True"

text \<open>The kind of pattern each subcommand manages.\<close>

fun kindOf :: "Subcommand \<Rightarrow> Kind" where
  "kindOf Cmd_cn_regex = CommonName"
| "kindOf Cmd_uri_constraint = URI"
| "kindOf Cmd_uri_regex = URI"
| "kindOf Cmd_email_regex = Email"
| "kindOf Cmd_dns_regex = DNS"
| "kindOf Cmd_principal_regex = SSHPrincipal"

text \<open>
  The branch and the list an action works on: every action tests the SSH host flag first,
  then the SSH user flag, then the X.509 flag, and inside a branch the allow flag before the
  deny flag.
\<close>

definition activeBranch :: "Ctx \<Rightarrow> Branch option" where
  "activeBranch ctx =
     (if IsSSHHostPolicy ctx then Some SSHHostBranch
      else if IsSSHUserPolicy ctx then Some SSHUserBranch
      else if IsX509Policy ctx then Some X509Branch
      else None)"

definition activeList :: "Ctx \<Rightarrow> ListSel option" where
  "activeList ctx =
     (if IsAllow ctx then Some AllowList
      else if IsDeny ctx then Some DenyList
      else None)"

text \<open>The words by which the error messages of the actions name a branch and a kind of pattern.\<close>

fun branchName :: "Branch \<Rightarrow> string" where
  "branchName X509Branch = ''X.509''"
| "branchName SSHHostBranch = ''SSH host''"
| "branchName SSHUserBranch = ''SSH user''"

fun patternName :: "Subcommand \<Rightarrow> string" where
  "patternName Cmd_cn_regex = ''common name regex patterns''"
| "patternName Cmd_uri_constraint = ''URI constraints''"
| "patternName Cmd_uri_regex = ''URI regex patterns''"
| "patternName Cmd_email_regex = ''email regex patterns''"
| "patternName Cmd_dns_regex = ''DNS regex patterns''"
| "patternName Cmd_principal_regex = ''principal regex patterns''"

text \<open>
  The rule-list field of the policy document selected by a branch, a list and a subcommand
  (\<open>None\<close> where the branch has no such field), and the document with that field replaced.
\<close>

fun x509Field :: "Subcommand \<Rightarrow> X509Names \<Rightarrow> string list option" where
  "x509Field Cmd_cn_regex n = Some (CommonNameRegex n)"
| "x509Field Cmd_uri_constraint n = Some (UriConstraints n)"
| "x509Field Cmd_uri_regex n = Some (UriRegex n)"
| "x509Field Cmd_email_regex n = Some (EmailRegex n)"
| "x509Field Cmd_dns_regex n = Some (DnsRegex n)"
| "x509Field Cmd_principal_regex n = None"

fun hostField :: "Subcommand \<Rightarrow> SSHHostNames \<Rightarrow> string list option" where
  "hostField Cmd_dns_regex n = Some (HostDnsRegex n)"
| "hostField Cmd_principal_regex n = Some (HostPrincipalRegex n)"
| "hostField _ n = None"

fun userField :: "Subcommand \<Rightarrow> SSHUserNames \<Rightarrow> string list option" where
  "userField Cmd_email_regex n = Some (UserEmailRegex n)"
| "userField Cmd_principal_regex n = Some (UserPrincipalRegex n)"
| "userField _ n = None"

fun side :: "ListSel \<Rightarrow> 'n AllowDeny \<Rightarrow> 'n" where
  "side AllowList ad = Allow ad"
| "side DenyList ad = Deny ad"

fun field :: "Branch \<Rightarrow> ListSel \<Rightarrow> Subcommand \<Rightarrow> Policy \<Rightarrow> string list option" where
  "field X509Branch l c p = x509Field c (side l (X509 p))"
| "field SSHHostBranch l c p = hostField c (side l (Host (Ssh p)))"
| "field SSHUserBranch l c p = userField c (side l (User (Ssh p)))"

fun x509With :: "Subcommand \<Rightarrow> string list \<Rightarrow> X509Names \<Rightarrow> X509Names" where
  "x509With Cmd_cn_regex v n = n\<lparr>CommonNameRegex := v\<rparr>"
| "x509With Cmd_uri_constraint v n = n\<lparr>UriConstraints := v\<rparr>"
| "x509With Cmd_uri_regex v n = n\<lparr>UriRegex := v\<rparr>"
| "x509With Cmd_email_regex v n = n\<lparr>EmailRegex := v\<rparr>"
| "x509With Cmd_dns_regex v n = n\<lparr>DnsRegex := v\<rparr>"
| "x509With Cmd_principal_regex v n = n"

fun hostWith :: "Subcommand \<Rightarrow> string list \<Rightarrow> SSHHostNames \<Rightarrow> SSHHostNames" where
  "hostWith Cmd_dns_regex v n = n\<lparr>HostDnsRegex := v\<rparr>"
| "hostWith Cmd_principal_regex v n = n\<lparr>HostPrincipalRegex := v\<rparr>"
| "hostWith _ v n = n"

fun userWith :: "Subcommand \<Rightarrow> string list \<Rightarrow> SSHUserNames \<Rightarrow> SSHUserNames" where
  "userWith Cmd_email_regex v n = n\<lparr>UserEmailRegex := v\<rparr>"
| "userWith Cmd_principal_regex v n = n\<lparr>UserPrincipalRegex := v\<rparr>"
| "userWith _ v n = n"

fun onSide :: "ListSel \<Rightarrow> ('n \<Rightarrow> 'n) \<Rightarrow> 'n AllowDeny \<Rightarrow> 'n AllowDeny" where
  "onSide AllowList f ad = ad\<lparr>Allow := f (Allow ad)\<rparr>"
| "onSide DenyList f ad = ad\<lparr>Deny := f (Deny ad)\<rparr>"

fun withField :: "Branch \<Rightarrow> ListSel \<Rightarrow> Subcommand \<Rightarrow> string list \<Rightarrow> Policy \<Rightarrow> Policy" where
  "withField X509Branch l c v p = p\<lparr>X509 := onSide l (x509With c v) (X509 p)\<rparr>"
| "withField SSHHostBranch l c v p =
     p\<lparr>Ssh := (Ssh p)\<lparr>Host := onSide l (hostWith c v) (Host (Ssh p))\<rparr>\<rparr>"
| "withField SSHUserBranch l c v p =
     p\<lparr>Ssh := (Ssh p)\<lparr>User := onSide l (userWith c v) (User (Ssh p))\<rparr>\<rparr>"

subsection \<open>The helper \<open>addOrRemoveArguments\<close> and example inputs\<close>

text \<open>
  Modelled from the spec: \<open>addOrRemoveArguments\<close> is called by every action and is not
  among the source files. The specification describes it as appending or removing strings
  of an ordered sequence (section 1); adding a value that is present and removing one that
  is absent are silent no-ops (sections 3 and 9), and each operation reports whether it
  changed the list (section 4.2). The call sites give it one result, the new list, so it
  has no way to report an error.
\<close>

definition addRaw :: "string \<Rightarrow> string list \<Rightarrow> string list \<times> bool" where
  "addRaw v rl = (if v \<in> set rl then (rl, False) else (rl @ [v], True))"

definition removeRaw :: "string \<Rightarrow> string list \<Rightarrow> string list \<times> bool" where
  "removeRaw v rl = (if v \<in> set rl then (removeAll v rl, True) else (rl, False))"

definition addOrRemoveArgumentsSpec :: "string list \<Rightarrow> string list \<Rightarrow> bool \<Rightarrow> string list" where
  "addOrRemoveArgumentsSpec existing args shouldRemove =
     fold (\<lambda>v rl. fst (if shouldRemove then removeRaw v rl else addRaw v rl)) args existing"

text \<open>
  Example inputs: a policy with every list empty, collaborators that always succeed (the
  remote side answers with the policy it was sent), and a context with the allow flag.
\<close>

definition emptyPolicy :: Policy where
  "emptyPolicy =
     \<lparr>X509 = \<lparr>Allow = \<lparr>DnsRegex = [], EmailRegex = [], UriRegex = [], CommonNameRegex = [],
                         UriConstraints = []\<rparr>,
              Deny = \<lparr>DnsRegex = [], EmailRegex = [], UriRegex = [], CommonNameRegex = [],
                        UriConstraints = []\<rparr>\<rparr>,
      Ssh = \<lparr>Host = \<lparr>Allow = \<lparr>HostDnsRegex = [], HostPrincipalRegex = []\<rparr>,
                       Deny = \<lparr>HostDnsRegex = [], HostPrincipalRegex = []\<rparr>\<rparr>,
             User = \<lparr>Allow = \<lparr>UserEmailRegex = [], UserPrincipalRegex = []\<rparr>,
                       Deny = \<lparr>UserEmailRegex = [], UserPrincipalRegex = []\<rparr>\<rparr>\<rparr>\<rparr>"

definition acceptingEnv :: Env where
  "acceptingEnv =
     \<lparr>NewAdminClient = Inr (AdminClient ''https://ca.example.com''),
      retrieveAndInitializePolicy = (\<lambda>client provisioner. Inr emptyPolicy),
      addOrRemoveArguments = addOrRemoveArgumentsSpec,
      updatePolicy = (\<lambda>client policy provisioner. Inr policy),
      prettyPrint = (\<lambda>policy. None)\<rparr>"

definition exampleCtx :: "bool \<Rightarrow> bool \<Rightarrow> bool \<Rightarrow> string list \<Rightarrow> Ctx" where
  "exampleCtx host user x509 args =
     \<lparr>IsSSHHostPolicy = host, IsSSHUserPolicy = user, IsX509Policy = x509,
      IsAllow = True, IsDeny = False, Args = args, RemoveFlag = False, Provisioner = ''''\<rparr>"

section \<open>Rule lists and matchers as the specification describes them\<close>

subsection \<open>Rule lists\<close>

text \<open>
  Modelled from the spec: the rule lists that \<open>addOrRemoveArguments\<close> edits, as sections 3
  and 4.2 describe them. A RuleList is the ordered sequence of the patterns of one cell; the
  patterns are told apart by their raw string, so the list is kept as the list of raw
  strings. A branch holds one set of rule lists for allow and one for deny, keyed by kind.
\<close>

type_synonym RuleList = "string list"
type_synonym RuleListSet = "Kind \<Rightarrow> RuleList"

text \<open>
  Modelled from the spec: \<open>Contains\<close>, \<open>Add\<close> and \<open>Remove\<close> of section 4.2, each on the
  rule list of the given kind; \<open>Add\<close> and \<open>Remove\<close> return the new set and whether it changed.
\<close>

definition Contains :: "Kind \<Rightarrow> string \<Rightarrow> RuleListSet \<Rightarrow> bool" where
  "Contains k v rs = (v \<in> set (rs k))"

definition Add :: "Kind \<Rightarrow> string \<Rightarrow> RuleListSet \<Rightarrow> RuleListSet \<times> bool" where
  "Add k v rs = (rs(k := fst (addRaw v (rs k))), snd (addRaw v (rs k)))"

definition Remove :: "Kind \<Rightarrow> string \<Rightarrow> RuleListSet \<Rightarrow> RuleListSet \<times> bool" where
  "Remove k v rs = (rs(k := fst (removeRaw v (rs k))), snd (removeRaw v (rs k)))"

text \<open>A sequence of edits, applied from the left, starting from the set with every list empty.\<close>

datatype Edit = AddEdit Kind string | RemoveEdit Kind string

fun applyEdit :: "Edit \<Rightarrow> RuleListSet \<Rightarrow> RuleListSet" where
  "applyEdit (AddEdit k v) rs = fst (Add k v rs)"
| "applyEdit (RemoveEdit k v) rs = fst (Remove k v rs)"

definition emptyRuleListSet :: RuleListSet where
  "emptyRuleListSet = (\<lambda>k. [])"

text \<open>The invariant of section 3: no rule list holds the same raw string twice.\<close>

definition noDuplicates :: "RuleListSet \<Rightarrow> bool" where
  "noDuplicates rs = (\<forall>k. distinct (rs k))"

subsection \<open>The DNS matcher and the structured URI matcher\<close>

text \<open>
  Modelled from the spec: the matchers are not among the source files (the specification
  places them elsewhere in the system); the two below follow section 4.1. Comparison without
  regard to case maps the letters \<open>A\<close> to \<open>Z\<close> to lower case.
\<close>

definition toLower :: "char \<Rightarrow> char" where
  "toLower c =
     (case map_of (zip ''ABCDEFGHIJKLMNOPQRSTUVWXYZ'' ''abcdefghijklmnopqrstuvwxyz'') c of
        Some d \<Rightarrow> d
      | None \<Rightarrow> c)"

definition lower :: "string \<Rightarrow> string" where
  "lower s = map toLower s"

text \<open>
  Modelled from the spec: the DNS matcher. A raw string that starts with \<open>*.\<close> is a
  wildcard: it matches a name one of whose suffixes after the first label equals the rest of
  the pattern (a suffix that begins after a dot lies after the first label); this is the
  reading under which \<open>b.a.example.com\<close> is a name of \<open>*.example.com\<close>, as section 8
  and the help text of \<open>uri-constraint\<close> (any subdomain) have it. Any other raw string is a
  literal, compared with the name without regard to case.
\<close>

fun afterDots :: "string \<Rightarrow> string list" where
  "afterDots [] = []"
| "afterDots (c # cs) = (if c = CHR ''.'' then cs # afterDots cs else afterDots cs)"

text \<open>Modelled from the spec: the mode of a DNS pattern comes from the syntax of its raw string.\<close>

definition isWildcard :: "string \<Rightarrow> bool" where
  "isWildcard raw = prefix ''*.'' raw"

text \<open>
  Modelled from the spec: \<open>Matches\<close> for a DNS pattern (not a regular expression) and a
  DNS name.
\<close>

definition dnsMatches :: "string \<Rightarrow> string \<Rightarrow> bool" where
  "dnsMatches raw name =
     (if isWildcard raw then drop 2 raw \<in> set (afterDots name)
      else lower raw = lower name)"

text \<open>
  Modelled from the spec: the structured URI matcher of \<open>uri-constraint\<close>, by the grammar
  of section 4.1 and of the command's help text. \<open>splitScheme\<close> cuts a string at its first
  \<open>://\<close>; what follows is the host up to the first slash, and the path from that slash on.
\<close>

fun splitScheme :: "string \<Rightarrow> (string \<times> string) option" where
  "splitScheme [] = None"
| "splitScheme (c # cs) =
     (if prefix ''://'' (c # cs) then Some ([], drop 3 (c # cs))
      else map_option (\<lambda>(s, r). (c # s, r)) (splitScheme cs))"

datatype URIConstraint =
    DomainOnly string
  | SchemeHost string string
  | ExactPath string string string
  | PathPrefix string string string

definition notSlash :: "char \<Rightarrow> bool" where
  "notSlash c = (c \<noteq> CHR ''/'')"

text \<open>
  Modelled from the spec: a constraint with no \<open>://\<close> names a domain only; with a scheme
  and no path it fixes scheme and host; with a path it fixes the path, or the path's prefix
  when the path ends in \<open>/*\<close> (the candidate's path must start with what precedes the star).
\<close>

definition parseConstraint :: "string \<Rightarrow> URIConstraint" where
  "parseConstraint raw =
     (case splitScheme raw of
        None \<Rightarrow> DomainOnly raw
      | Some (s, rest) \<Rightarrow>
          (let h = takeWhile notSlash rest; p = dropWhile notSlash rest in
           if p = [] then SchemeHost s h
           else if suffix ''/*'' p then PathPrefix s h (butlast p)
           else ExactPath s h p))"

text \<open>Modelled from the spec: a candidate URI, decomposed into scheme, host and path.\<close>

record URIParts =
  uriScheme :: string
  uriHost :: string
  uriPath :: string

definition parseURI :: "string \<Rightarrow> URIParts" where
  "parseURI u =
     (case splitScheme u of
        None \<Rightarrow> \<lparr>uriScheme = [], uriHost = takeWhile notSlash u, uriPath = dropWhile notSlash u\<rparr>
      | Some (s, rest) \<Rightarrow>
          \<lparr>uriScheme = s, uriHost = takeWhile notSlash rest, uriPath = dropWhile notSlash rest\<rparr>)"

text \<open>
  Modelled from the spec: \<open>Matches\<close> for a structured URI constraint and a candidate URI.
  Scheme and host are compared without regard to case, the path as it is; a domain-only
  constraint takes the \<open>*.\<close> prefix as the DNS matcher does.
\<close>

definition uriMatches :: "string \<Rightarrow> string \<Rightarrow> bool" where
  "uriMatches raw candidate =
     (let u = parseURI candidate in
      case parseConstraint raw of
        DomainOnly d \<Rightarrow> dnsMatches (lower d) (lower (uriHost u))
      | SchemeHost s h \<Rightarrow> lower s = lower (uriScheme u) \<and> lower h = lower (uriHost u)
      | ExactPath s h p \<Rightarrow>
          lower s = lower (uriScheme u) \<and> lower h = lower (uriHost u) \<and> p = uriPath u
      | PathPrefix s h pre \<Rightarrow>
          lower s = lower (uriScheme u) \<and> lower h = lower (uriHost u) \<and> prefix pre (uriPath u))"

text \<open>
  A candidate URI written from its parts, and parts that read back as they were written: no
  colon in the scheme, no slash in the host, a path that is empty or starts with a slash.
\<close>

definition uriOf :: "string \<Rightarrow> string \<Rightarrow> string \<Rightarrow> string" where
  "uriOf s h p = s @ ''://'' @ h @ p"

definition wellFormedParts :: "string \<Rightarrow> string \<Rightarrow> string \<Rightarrow> bool" where
  "wellFormedParts s h p =
     (CHR '':'' \<notin> set s \<and> CHR ''/'' \<notin> set h \<and> (p = [] \<or> hd p = CHR ''/''))"


section \<open>Properties of the actions\<close>

subsection \<open>What each action does after the policy was retrieved\<close>

lemmas action_defs = commonNameRegexAction_def uriConstraintAction_def emailRegexAction_def
  uriRegexAction_def dnsRegexAction_def principalRegexAction_def

lemma withPolicy_reached:
  assumes "Args ctx \<noteq> []" "NewAdminClient env = Inr client"
    "retrieveAndInitializePolicy env client (Provisioner ctx) = Inr policy"
  shows "withPolicy env ctx body = body client (Provisioner ctx) policy"
  using assms by (simp add: withPolicy_def)

lemma action_legal:
  assumes "Args ctx \<noteq> []" "NewAdminClient env = Inr client"
    "retrieveAndInitializePolicy env client (Provisioner ctx) = Inr policy"
    "activeBranch ctx = Some b" "activeList ctx = Some l" "legalityTable b (kindOf c)"
  shows "\<exists>old. field b l c policy = Some old \<and>
     action c env ctx = updateAndPrint env client (Provisioner ctx)
       (withField b l c (addOrRemoveArguments env old (Args ctx) (RemoveFlag ctx)) policy)"
  using assms(4-6)
  by (cases c; cases b; cases l)
     (simp_all add: action_defs withPolicy_reached[OF assms(1-3)] activeBranch_def activeList_def
        split: if_splits)

lemma action_illegal:
  assumes "Args ctx \<noteq> []" "NewAdminClient env = Inr client"
    "retrieveAndInitializePolicy env client (Provisioner ctx) = Inr policy"
    "activeBranch ctx = Some b" "\<not> legalityTable b (kindOf c)"
  shows "action c env ctx = stopAfterRetrieve client (Provisioner ctx) policy
       (Returned (Some (ErrorsNew (branchName b @ '' policy does not support '' @ patternName c))))"
  using assms(4-5)
  by (cases c; cases b)
     (simp_all add: action_defs withPolicy_reached[OF assms(1-3)] activeBranch_def
        split: if_splits)

lemma action_no_branch:
  assumes "Args ctx \<noteq> []" "NewAdminClient env = Inr client"
    "retrieveAndInitializePolicy env client (Provisioner ctx) = Inr policy"
    "activeBranch ctx = None"
  shows "action c env ctx = stopAfterRetrieve client (Provisioner ctx) policy
       (Panicked ''no SSH nor X.509 context set'')"
  using assms(4)
  by (cases c)
     (simp_all add: action_defs withPolicy_reached[OF assms(1-3)] activeBranch_def
        split: if_splits)

lemma action_no_list:
  assumes "Args ctx \<noteq> []" "NewAdminClient env = Inr client"
    "retrieveAndInitializePolicy env client (Provisioner ctx) = Inr policy"
    "activeBranch ctx = Some b" "legalityTable b (kindOf c)" "activeList ctx = None"
  shows "action c env ctx = stopAfterRetrieve client (Provisioner ctx) policy
       (Panicked ''no allow nor deny context set'')"
  using assms(4-6)
  by (cases c; cases b)
     (simp_all add: action_defs withPolicy_reached[OF assms(1-3)] activeBranch_def activeList_def
        split: if_splits)

lemma action_too_few:
  "Args ctx = [] \<Longrightarrow> action c env ctx =
     \<lparr>calls = [], document = None, result = Returned (Some TooFewArguments)\<rparr>"
  by (cases c) (simp_all add: action_defs withPolicy_def)

lemma action_client_failed:
  "Args ctx \<noteq> [] \<Longrightarrow> NewAdminClient env = Inl err \<Longrightarrow> action c env ctx =
     \<lparr>calls = [CallNewAdminClient], document = None,
      result = Returned (Some (Errorf ''error creating admin client: '' err))\<rparr>"
  by (cases c) (simp_all add: action_defs withPolicy_def)

lemma action_retrieve_failed:
  "Args ctx \<noteq> [] \<Longrightarrow> NewAdminClient env = Inr client \<Longrightarrow>
   retrieveAndInitializePolicy env client (Provisioner ctx) = Inl err \<Longrightarrow>
   action c env ctx =
     \<lparr>calls = [CallNewAdminClient, CallRetrievePolicy client (Provisioner ctx)], document = None,
      result = Returned (Some (Errorf ''error retrieving policy: '' err))\<rparr>"
  by (cases c) (simp_all add: action_defs withPolicy_def)

lemma x509Field_x509With:
  "x509Field c' (x509With c v n) = (if c' = c \<and> x509Field c n \<noteq> None then Some v else x509Field c' n)"
  by (cases c; cases c') simp_all

lemma hostField_hostWith:
  "hostField c' (hostWith c v n) = (if c' = c \<and> hostField c n \<noteq> None then Some v else hostField c' n)"
  by (cases c; cases c') simp_all

lemma userField_userWith:
  "userField c' (userWith c v n) = (if c' = c \<and> userField c n \<noteq> None then Some v else userField c' n)"
  by (cases c; cases c') simp_all

lemma side_onSide:
  "side l' (onSide l f ad) = (if l' = l then f (side l ad) else side l' ad)"
  by (cases l; cases l') simp_all

lemma field_withField:
  "field b' l' c' (withField b l c v p) =
     (if b' = b \<and> l' = l \<and> c' = c \<and> field b l c p \<noteq> None then Some v else field b' l' c' p)"
  by (cases b; cases b')
     (auto simp: side_onSide x509Field_x509With hostField_hostWith userField_userWith)

lemma result_updateAndPrint:
  "result (updateAndPrint env client provisioner policy) \<noteq> Returned (Some (ErrorsNew msg))"
  by (cases "updatePolicy env client policy provisioner"; cases "prettyPrint env (projr (updatePolicy env client policy provisioner))")
     (simp_all add: updateAndPrint_def)

subsection \<open>Missing arguments\<close>

text \<open>
  Claim C9. Each of the six actions, invoked with no positional argument, returns the
  too-few-arguments error at once: it has made no call to the outside (no admin client, no
  policy retrieved, no update) and holds no policy document.
\<close>

theorem too_few_arguments_before_anything:
  "Args ctx = [] \<Longrightarrow>
     action c env ctx = \<lparr>calls = [], document = None, result = Returned (Some TooFewArguments)\<rparr>"
  by (rule action_too_few)

theorem too_few_arguments_before_anything_witness:
  "action Cmd_principal_regex acceptingEnv (exampleCtx False True False []) =
     \<lparr>calls = [], document = None, result = Returned (Some TooFewArguments)\<rparr>"
proof -
  have "Args (exampleCtx False True False []) = []"
    by (simp add: exampleCtx_def)
  from too_few_arguments_before_anything[OF this] show ?thesis .
qed

subsection \<open>Unsupported pairs of branch and kind\<close>

text \<open>
  Claim C1, as amended. When an action has at least one argument, the admin client was
  created and the policy retrieved, then for the active branch \<open>b\<close>: if the pair of \<open>b\<close>
  and the subcommand's kind is not marked yes in the legality table, the action returns the
  error \<open>errors.New\<close> whose message is the branch's name, \<open>policy does not support\<close> and the
  kind's name; it has made no call to \<open>updatePolicy\<close> and the policy document is the one
  retrieved. If the pair is marked yes, no error made by \<open>errors.New\<close> is returned.
\<close>

theorem unsupported_pair_rejected_at_switch:
  assumes "Args ctx \<noteq> []" and "NewAdminClient env = Inr client"
    and "retrieveAndInitializePolicy env client (Provisioner ctx) = Inr policy"
    and "activeBranch ctx = Some b"
  shows "(\<not> legalityTable b (kindOf c) \<longrightarrow>
            action c env ctx =
              \<lparr>calls = [CallNewAdminClient, CallRetrievePolicy client (Provisioner ctx)],
               document = Some policy,
               result = Returned (Some (ErrorsNew
                  (branchName b @ '' policy does not support '' @ patternName c)))\<rparr>)
       \<and> (legalityTable b (kindOf c) \<longrightarrow>
            (\<forall>msg. result (action c env ctx) \<noteq> Returned (Some (ErrorsNew msg))))"
proof (intro conjI impI allI)
  assume "\<not> legalityTable b (kindOf c)"
  from action_illegal[OF assms this] show "action c env ctx =
      \<lparr>calls = [CallNewAdminClient, CallRetrievePolicy client (Provisioner ctx)],
       document = Some policy,
       result = Returned (Some (ErrorsNew
          (branchName b @ '' policy does not support '' @ patternName c)))\<rparr>"
    by (simp add: stopAfterRetrieve_def)
next
  fix msg
  assume legal: "legalityTable b (kindOf c)"
  show "result (action c env ctx) \<noteq> Returned (Some (ErrorsNew msg))"
  proof (cases "activeList ctx")
    case None
    from action_no_list[OF assms legal None] show ?thesis
      by (simp add: stopAfterRetrieve_def)
  next
    case (Some l)
    from action_legal[OF assms Some legal] obtain old where
      "action c env ctx = updateAndPrint env client (Provisioner ctx)
         (withField b l c (addOrRemoveArguments env old (Args ctx) (RemoveFlag ctx)) policy)"
      by blast
    then show ?thesis by (simp add: result_updateAndPrint)
  qed
qed

theorem unsupported_pair_rejected_at_switch_witness:
  "action Cmd_cn_regex acceptingEnv (exampleCtx True False False [''^test-.*$'']) =
     \<lparr>calls = [CallNewAdminClient, CallRetrievePolicy (AdminClient ''https://ca.example.com'') ''''],
      document = Some emptyPolicy,
      result = Returned (Some (ErrorsNew ''SSH host policy does not support common name regex patterns''))\<rparr>
   \<and> result (action Cmd_dns_regex acceptingEnv (exampleCtx True False False [''^test-.*$''])) \<noteq>
       Returned (Some (ErrorsNew ''SSH host policy does not support DNS regex patterns''))"
proof -
  let ?ctx = "exampleCtx True False False [''^test-.*$'']"
  let ?client = "AdminClient ''https://ca.example.com''"
  have a: "Args ?ctx \<noteq> []" by (simp add: exampleCtx_def)
  have n: "NewAdminClient acceptingEnv = Inr ?client" by (simp add: acceptingEnv_def)
  have r: "retrieveAndInitializePolicy acceptingEnv ?client (Provisioner ?ctx) = Inr emptyPolicy"
    by (simp add: acceptingEnv_def)
  have b: "activeBranch ?ctx = Some SSHHostBranch" by (simp add: exampleCtx_def activeBranch_def)
  from unsupported_pair_rejected_at_switch[OF a n r b, of Cmd_cn_regex]
    unsupported_pair_rejected_at_switch[OF a n r b, of Cmd_dns_regex]
  show ?thesis by (simp add: exampleCtx_def)
qed

text \<open>
  Claim C1 as stated has no condition on the arguments or on the collaborators. With an
  unsupported pair (\<open>cn-regex\<close> under the SSH host branch) the action returns the
  too-few-arguments error when there is no argument, and the wrapped error of the admin
  client or of the retrieval when one of them fails: none is the error naming branch and kind.
\<close>

theorem unsupported_pair_counterexample:
  "activeBranch (exampleCtx True False False []) = Some SSHHostBranch
   \<and> \<not> legalityTable SSHHostBranch (kindOf Cmd_cn_regex)
   \<and> result (action Cmd_cn_regex acceptingEnv (exampleCtx True False False [])) =
       Returned (Some TooFewArguments)
   \<and> result (action Cmd_cn_regex (acceptingEnv\<lparr>NewAdminClient := Inl ''connection refused''\<rparr>)
         (exampleCtx True False False [''^test-.*$''])) =
       Returned (Some (Errorf ''error creating admin client: '' ''connection refused''))
   \<and> result (action Cmd_cn_regex
         (acceptingEnv\<lparr>retrieveAndInitializePolicy := (\<lambda>client provisioner. Inl ''not found'')\<rparr>)
         (exampleCtx True False False [''^test-.*$''])) =
       Returned (Some (Errorf ''error retrieving policy: '' ''not found''))"
  by (simp add: commonNameRegexAction_def withPolicy_def acceptingEnv_def exampleCtx_def
       activeBranch_def)

subsection \<open>The frame of a successful run\<close>

lemma action_succeeds_only_after_update:
  assumes "result (action c env ctx) = Returned None"
  shows "\<exists>client policy b l. Args ctx \<noteq> [] \<and> NewAdminClient env = Inr client \<and>
      retrieveAndInitializePolicy env client (Provisioner ctx) = Inr policy \<and>
      activeBranch ctx = Some b \<and> activeList ctx = Some l \<and> legalityTable b (kindOf c)"
proof -
  have a: "Args ctx \<noteq> []"
    using assms action_too_few[of ctx c env] by auto
  obtain client where n: "NewAdminClient env = Inr client"
    using assms action_client_failed[OF a, of env _ c] by (cases "NewAdminClient env") auto
  obtain policy where r: "retrieveAndInitializePolicy env client (Provisioner ctx) = Inr policy"
    using assms action_retrieve_failed[OF a n, of _ c]
    by (cases "retrieveAndInitializePolicy env client (Provisioner ctx)") auto
  obtain b where b: "activeBranch ctx = Some b"
    using assms action_no_branch[OF a n r, of c]
    by (cases "activeBranch ctx") (auto simp: stopAfterRetrieve_def)
  have legal: "legalityTable b (kindOf c)"
  proof (rule ccontr)
    assume "\<not> legalityTable b (kindOf c)"
    from action_illegal[OF a n r b this] assms show False
      by (simp add: stopAfterRetrieve_def)
  qed
  obtain l where l: "activeList ctx = Some l"
    using assms action_no_list[OF a n r b legal]
    by (cases "activeList ctx") (auto simp: stopAfterRetrieve_def)
  from a n r b l legal show ?thesis by blast
qed

lemma updateAndPrint_success:
  assumes "result (updateAndPrint env client provisioner policy) = Returned None"
  shows "\<exists>updated. updatePolicy env client policy provisioner = Inr updated \<and>
     prettyPrint env updated = None \<and>
     calls (updateAndPrint env client provisioner policy) =
       [CallNewAdminClient, CallRetrievePolicy client provisioner,
        CallUpdatePolicy client policy provisioner, CallPrettyPrint updated]"
  using assms
  by (cases "updatePolicy env client policy provisioner") (simp_all add: updateAndPrint_def)

text \<open>
  Claim C10. When an action returns without error, it has called \<open>updatePolicy\<close> once, with
  a document \<open>sent\<close> that differs from the retrieved policy in one field only: the field
  selected by the active branch, the active list and the subcommand holds the result of
  \<open>addOrRemoveArguments\<close>, and every other field selected by a branch, a list and a
  subcommand is the retrieved one.
\<close>

theorem success_modifies_one_field:
  assumes "result (action c env ctx) = Returned None"
  shows "\<exists>client policy b l old sent updated.
      NewAdminClient env = Inr client \<and>
      retrieveAndInitializePolicy env client (Provisioner ctx) = Inr policy \<and>
      activeBranch ctx = Some b \<and> activeList ctx = Some l \<and>
      field b l c policy = Some old \<and>
      calls (action c env ctx) =
        [CallNewAdminClient, CallRetrievePolicy client (Provisioner ctx),
         CallUpdatePolicy client sent (Provisioner ctx), CallPrettyPrint updated] \<and>
      field b l c sent = Some (addOrRemoveArguments env old (Args ctx) (RemoveFlag ctx)) \<and>
      (\<forall>b' l' c'. (b', l', c') \<noteq> (b, l, c) \<longrightarrow> field b' l' c' sent = field b' l' c' policy)"
proof -
  from action_succeeds_only_after_update[OF assms] obtain client policy b l where
    a: "Args ctx \<noteq> []" and n: "NewAdminClient env = Inr client" and
    r: "retrieveAndInitializePolicy env client (Provisioner ctx) = Inr policy" and
    b: "activeBranch ctx = Some b" and l: "activeList ctx = Some l" and
    legal: "legalityTable b (kindOf c)"
    by blast
  from action_legal[OF a n r b l legal] obtain old where
    old: "field b l c policy = Some old" and
    run: "action c env ctx = updateAndPrint env client (Provisioner ctx)
       (withField b l c (addOrRemoveArguments env old (Args ctx) (RemoveFlag ctx)) policy)"
    by blast
  let ?sent = "withField b l c (addOrRemoveArguments env old (Args ctx) (RemoveFlag ctx)) policy"
  from assms run updateAndPrint_success[of env client "Provisioner ctx" ?sent] obtain updated where
    c: "calls (action c env ctx) =
        [CallNewAdminClient, CallRetrievePolicy client (Provisioner ctx),
         CallUpdatePolicy client ?sent (Provisioner ctx), CallPrettyPrint updated]"
    by auto
  have same: "field b l c ?sent = Some (addOrRemoveArguments env old (Args ctx) (RemoveFlag ctx))"
    using old by (simp add: field_withField)
  have others: "\<forall>b' l' c'. (b', l', c') \<noteq> (b, l, c) \<longrightarrow> field b' l' c' ?sent = field b' l' c' policy"
    by (simp add: field_withField)
  from n r b l old c same others show ?thesis by blast
qed

text \<open>The fields selected by branch, list and subcommand are the whole document.\<close>

lemma fields_determine_policy:
  assumes "\<forall>b l c. field b l c p = field b l c q"
  shows "p = (q::Policy)"
proof -
  have x: "\<And>l. side l (X509 p) = side l (X509 q)"
  proof -
    fix l
    have "\<forall>c. x509Field c (side l (X509 p)) = x509Field c (side l (X509 q))"
      using assms by (metis field.simps(1))
    then have "CommonNameRegex (side l (X509 p)) = CommonNameRegex (side l (X509 q))"
      "UriConstraints (side l (X509 p)) = UriConstraints (side l (X509 q))"
      "UriRegex (side l (X509 p)) = UriRegex (side l (X509 q))"
      "EmailRegex (side l (X509 p)) = EmailRegex (side l (X509 q))"
      "DnsRegex (side l (X509 p)) = DnsRegex (side l (X509 q))"
      by (metis x509Field.simps option.inject)+
    then show "side l (X509 p) = side l (X509 q)" by simp
  qed
  have h: "\<And>l. side l (Host (Ssh p)) = side l (Host (Ssh q))"
  proof -
    fix l
    have "\<forall>c. hostField c (side l (Host (Ssh p))) = hostField c (side l (Host (Ssh q)))"
      using assms by (metis field.simps(2))
    then have "HostDnsRegex (side l (Host (Ssh p))) = HostDnsRegex (side l (Host (Ssh q)))"
      "HostPrincipalRegex (side l (Host (Ssh p))) = HostPrincipalRegex (side l (Host (Ssh q)))"
      by (metis hostField.simps(1,2) option.inject)+
    then show "side l (Host (Ssh p)) = side l (Host (Ssh q))" by simp
  qed
  have u: "\<And>l. side l (User (Ssh p)) = side l (User (Ssh q))"
  proof -
    fix l
    have "\<forall>c. userField c (side l (User (Ssh p))) = userField c (side l (User (Ssh q)))"
      using assms by (metis field.simps(3))
    then have "UserEmailRegex (side l (User (Ssh p))) = UserEmailRegex (side l (User (Ssh q)))"
      "UserPrincipalRegex (side l (User (Ssh p))) = UserPrincipalRegex (side l (User (Ssh q)))"
      by (metis userField.simps(1,2) option.inject)+
    then show "side l (User (Ssh p)) = side l (User (Ssh q))" by simp
  qed
  have "X509 p = X509 q" using x[of AllowList] x[of DenyList] by simp
  moreover have "Host (Ssh p) = Host (Ssh q)" using h[of AllowList] h[of DenyList] by simp
  moreover have "User (Ssh p) = User (Ssh q)" using u[of AllowList] u[of DenyList] by simp
  ultimately show ?thesis by simp
qed

theorem success_modifies_one_field_witness:
  "result (action Cmd_dns_regex acceptingEnv (exampleCtx True False False [''^internal-.*$''])) =
     Returned None
   \<and> (\<exists>sent updated.
        calls (action Cmd_dns_regex acceptingEnv (exampleCtx True False False [''^internal-.*$''])) =
          [CallNewAdminClient, CallRetrievePolicy (AdminClient ''https://ca.example.com'') '''',
           CallUpdatePolicy (AdminClient ''https://ca.example.com'') sent '''',
           CallPrettyPrint updated]
        \<and> field SSHHostBranch AllowList Cmd_dns_regex sent = Some [''^internal-.*$'']
        \<and> field X509Branch AllowList Cmd_dns_regex sent = Some []
        \<and> field SSHHostBranch DenyList Cmd_dns_regex sent = Some [])"
proof -
  let ?ctx = "exampleCtx True False False [''^internal-.*$'']"
  have ok: "result (action Cmd_dns_regex acceptingEnv ?ctx) = Returned None"
    by (simp add: dnsRegexAction_def withPolicy_def updateAndPrint_def acceptingEnv_def
        exampleCtx_def Let_def)
  from success_modifies_one_field[OF ok] obtain client policy b l old sent updated where
    n: "NewAdminClient acceptingEnv = Inr client" and
    r: "retrieveAndInitializePolicy acceptingEnv client (Provisioner ?ctx) = Inr policy" and
    b: "activeBranch ?ctx = Some b" and l: "activeList ?ctx = Some l" and
    old: "field b l Cmd_dns_regex policy = Some old" and
    c: "calls (action Cmd_dns_regex acceptingEnv ?ctx) =
        [CallNewAdminClient, CallRetrievePolicy client (Provisioner ?ctx),
         CallUpdatePolicy client sent (Provisioner ?ctx), CallPrettyPrint updated]" and
    same: "field b l Cmd_dns_regex sent =
        Some (addOrRemoveArguments acceptingEnv old (Args ?ctx) (RemoveFlag ?ctx))" and
    others: "\<forall>b' l' c'. (b', l', c') \<noteq> (b, l, Cmd_dns_regex) \<longrightarrow>
        field b' l' c' sent = field b' l' c' policy"
    by blast
  have client: "client = AdminClient ''https://ca.example.com''"
    using n by (simp add: acceptingEnv_def)
  have policy: "policy = emptyPolicy"
    using r by (simp add: acceptingEnv_def)
  have b': "b = SSHHostBranch" using b by (simp add: activeBranch_def exampleCtx_def)
  have l': "l = AllowList" using l by (simp add: activeList_def exampleCtx_def)
  have old': "old = []" using old by (simp add: b' l' policy emptyPolicy_def)
  have 1: "field SSHHostBranch AllowList Cmd_dns_regex sent = Some [''^internal-.*$'']"
    using same
    by (simp add: b' l' old' acceptingEnv_def exampleCtx_def addOrRemoveArgumentsSpec_def
        addRaw_def)
  have 2: "field X509Branch AllowList Cmd_dns_regex sent = Some []"
    using others[rule_format, of X509Branch AllowList Cmd_dns_regex]
    by (simp add: b' policy emptyPolicy_def)
  have 3: "field SSHHostBranch DenyList Cmd_dns_regex sent = Some []"
    using others[rule_format, of SSHHostBranch DenyList Cmd_dns_regex]
    by (simp add: l' policy emptyPolicy_def)
  from c have "calls (action Cmd_dns_regex acceptingEnv ?ctx) =
          [CallNewAdminClient, CallRetrievePolicy (AdminClient ''https://ca.example.com'') '''',
           CallUpdatePolicy (AdminClient ''https://ca.example.com'') sent '''',
           CallPrettyPrint updated]"
    by (simp add: client exampleCtx_def)
  with ok 1 2 3 show ?thesis by blast
qed

subsection \<open>No check of the pattern's syntax\<close>

text \<open>
  Claim C2, as amended. The actions do not look at the syntax of their arguments. For any
  argument strings, once the pair of branch and kind is legal and a list is active, the
  action assigns the result of \<open>addOrRemoveArguments\<close> to the selected field, hands that
  document to \<open>updatePolicy\<close>, and returns either the error of \<open>updatePolicy\<close> behind
  \<open>error updating policy\<close> or what \<open>prettyPrint\<close> returns. Whether a malformed pattern is
  refused is decided by \<open>updatePolicy\<close>, after the document was changed.
\<close>

theorem arguments_stored_without_syntax_check:
  assumes "Args ctx \<noteq> []" and "NewAdminClient env = Inr client"
    and "retrieveAndInitializePolicy env client (Provisioner ctx) = Inr policy"
    and "activeBranch ctx = Some b" and "activeList ctx = Some l"
    and "legalityTable b (kindOf c)"
  shows "\<exists>old sent. field b l c policy = Some old \<and>
      sent = withField b l c (addOrRemoveArguments env old (Args ctx) (RemoveFlag ctx)) policy \<and>
      document (action c env ctx) = Some sent \<and>
      take 3 (calls (action c env ctx)) =
        [CallNewAdminClient, CallRetrievePolicy client (Provisioner ctx),
         CallUpdatePolicy client sent (Provisioner ctx)] \<and>
      result (action c env ctx) =
        (case updatePolicy env client sent (Provisioner ctx) of
           Inl err \<Rightarrow> Returned (Some (Errorf ''error updating policy: '' err))
         | Inr updated \<Rightarrow> Returned (map_option Passed (prettyPrint env updated)))"
proof -
  from action_legal[OF assms] obtain old where
    old: "field b l c policy = Some old" and
    run: "action c env ctx = updateAndPrint env client (Provisioner ctx)
       (withField b l c (addOrRemoveArguments env old (Args ctx) (RemoveFlag ctx)) policy)"
    by blast
  let ?sent = "withField b l c (addOrRemoveArguments env old (Args ctx) (RemoveFlag ctx)) policy"
  have "document (action c env ctx) = Some ?sent"
    unfolding run by (cases "updatePolicy env client ?sent (Provisioner ctx)")
      (simp_all add: updateAndPrint_def)
  moreover have "take 3 (calls (action c env ctx)) =
        [CallNewAdminClient, CallRetrievePolicy client (Provisioner ctx),
         CallUpdatePolicy client ?sent (Provisioner ctx)]"
    unfolding run by (cases "updatePolicy env client ?sent (Provisioner ctx)")
      (simp_all add: updateAndPrint_def)
  moreover have "result (action c env ctx) =
        (case updatePolicy env client ?sent (Provisioner ctx) of
           Inl err \<Rightarrow> Returned (Some (Errorf ''error updating policy: '' err))
         | Inr updated \<Rightarrow> Returned (map_option Passed (prettyPrint env updated)))"
    unfolding run by (cases "updatePolicy env client ?sent (Provisioner ctx)")
      (simp_all add: updateAndPrint_def)
  ultimately show ?thesis using old by blast
qed

theorem arguments_stored_without_syntax_check_witness:
  "document (action Cmd_uri_regex acceptingEnv (exampleCtx False False True [''^https://('']))
     = Some (withField X509Branch AllowList Cmd_uri_regex [''^https://(''] emptyPolicy)
   \<and> result (action Cmd_uri_regex acceptingEnv (exampleCtx False False True [''^https://('']))
     = Returned None"
proof -
  let ?ctx = "exampleCtx False False True [''^https://('']"
  let ?client = "AdminClient ''https://ca.example.com''"
  have a: "Args ?ctx \<noteq> []" by (simp add: exampleCtx_def)
  have n: "NewAdminClient acceptingEnv = Inr ?client" by (simp add: acceptingEnv_def)
  have r: "retrieveAndInitializePolicy acceptingEnv ?client (Provisioner ?ctx) = Inr emptyPolicy"
    by (simp add: acceptingEnv_def)
  have b: "activeBranch ?ctx = Some X509Branch" by (simp add: exampleCtx_def activeBranch_def)
  have l: "activeList ?ctx = Some AllowList" by (simp add: exampleCtx_def activeList_def)
  have legal: "legalityTable X509Branch (kindOf Cmd_uri_regex)" by simp
  from arguments_stored_without_syntax_check[OF a n r b l legal] obtain old sent where
    old: "field X509Branch AllowList Cmd_uri_regex emptyPolicy = Some old" and
    sent: "sent = withField X509Branch AllowList Cmd_uri_regex
       (addOrRemoveArguments acceptingEnv old (Args ?ctx) (RemoveFlag ?ctx)) emptyPolicy" and
    doc: "document (action Cmd_uri_regex acceptingEnv ?ctx) = Some sent" and
    res: "result (action Cmd_uri_regex acceptingEnv ?ctx) =
        (case updatePolicy acceptingEnv ?client sent (Provisioner ?ctx) of
           Inl err \<Rightarrow> Returned (Some (Errorf ''error updating policy: '' err))
         | Inr updated \<Rightarrow> Returned (map_option Passed (prettyPrint acceptingEnv updated)))"
    by blast
  have old': "old = []" using old by (simp add: emptyPolicy_def)
  have "sent = withField X509Branch AllowList Cmd_uri_regex [''^https://(''] emptyPolicy"
    unfolding sent old'
    by (simp add: acceptingEnv_def exampleCtx_def addOrRemoveArgumentsSpec_def addRaw_def)
  moreover have "result (action Cmd_uri_regex acceptingEnv ?ctx) = Returned None"
    unfolding res by (simp add: acceptingEnv_def)
  ultimately show ?thesis using doc by simp
qed

text \<open>
  Claim C2 as stated fails: \<open>cn-regex (\<close> (an unbalanced parenthesis is no regular
  expression) and \<open>uri-constraint ://\<close> (a URI with neither scheme nor host) under the X.509
  allow list, with collaborators that succeed, return no error, and the document handed to
  \<open>updatePolicy\<close> holds the malformed pattern.
\<close>

theorem malformed_pattern_counterexample:
  "action Cmd_cn_regex acceptingEnv (exampleCtx False False True [''('']) =
     \<lparr>calls = [CallNewAdminClient, CallRetrievePolicy (AdminClient ''https://ca.example.com'') '''',
               CallUpdatePolicy (AdminClient ''https://ca.example.com'')
                 (withField X509Branch AllowList Cmd_cn_regex [''(''] emptyPolicy) '''',
               CallPrettyPrint (withField X509Branch AllowList Cmd_cn_regex [''(''] emptyPolicy)],
      document = Some (withField X509Branch AllowList Cmd_cn_regex [''(''] emptyPolicy),
      result = Returned None\<rparr>
   \<and> CommonNameRegex (Allow (X509 (withField X509Branch AllowList Cmd_cn_regex [''(''] emptyPolicy)))
       = [''('']
   \<and> action Cmd_uri_constraint acceptingEnv (exampleCtx False False True [''://'']) =
     \<lparr>calls = [CallNewAdminClient, CallRetrievePolicy (AdminClient ''https://ca.example.com'') '''',
               CallUpdatePolicy (AdminClient ''https://ca.example.com'')
                 (withField X509Branch AllowList Cmd_uri_constraint [''://''] emptyPolicy) '''',
               CallPrettyPrint (withField X509Branch AllowList Cmd_uri_constraint [''://''] emptyPolicy)],
      document = Some (withField X509Branch AllowList Cmd_uri_constraint [''://''] emptyPolicy),
      result = Returned None\<rparr>"
  by (simp add: commonNameRegexAction_def uriConstraintAction_def withPolicy_def
      updateAndPrint_def acceptingEnv_def exampleCtx_def emptyPolicy_def
      addOrRemoveArgumentsSpec_def addRaw_def Let_def)

section \<open>Properties of the rule lists and matchers\<close>

subsection \<open>Add and Remove\<close>

lemma distinct_addRaw: "distinct rl \<Longrightarrow> distinct (fst (addRaw v rl))"
  by (simp add: addRaw_def)

lemma distinct_removeRaw: "distinct rl \<Longrightarrow> distinct (fst (removeRaw v rl))"
  by (simp add: removeRaw_def distinct_removeAll)

lemma noDuplicates_Add: "noDuplicates rs \<Longrightarrow> noDuplicates (fst (Add k v rs))"
  by (simp add: noDuplicates_def Add_def distinct_addRaw)

lemma noDuplicates_Remove: "noDuplicates rs \<Longrightarrow> noDuplicates (fst (Remove k v rs))"
  by (simp add: noDuplicates_def Remove_def distinct_removeRaw)

lemma noDuplicates_applyEdit: "noDuplicates rs \<Longrightarrow> noDuplicates (applyEdit e rs)"
  by (cases e) (simp_all add: noDuplicates_Add noDuplicates_Remove)

lemma noDuplicates_fold: "noDuplicates rs \<Longrightarrow> noDuplicates (fold applyEdit es rs)"
  by (induction es arbitrary: rs) (simp_all add: noDuplicates_applyEdit)

lemma Add_twice: "Add k v (fst (Add k v rs)) = (fst (Add k v rs), False)"
  by (simp add: Add_def addRaw_def)

lemma Add_present: "Contains k v rs \<Longrightarrow> Add k v rs = (rs, False)"
  by (simp add: Add_def addRaw_def Contains_def)

lemma Remove_absent: "\<not> Contains k v rs \<Longrightarrow> Remove k v rs = (rs, False)"
  by (simp add: Remove_def removeRaw_def Contains_def)

text \<open>
  Claim C3. Adding a value a second time changes nothing and reports no change, so
  membership and size are those after the first \<open>Add\<close>; adding a value that is present, and
  removing one that is absent, return the set as it was with \<open>changed = False\<close>. \<open>Add\<close> and
  \<open>Remove\<close> keep the lists free of duplicates, so no list built from the empty set by any
  sequence of edits holds two patterns with the same raw string.
\<close>

theorem add_and_remove_are_idempotent:
  "Add k v (fst (Add k v rs)) = (fst (Add k v rs), False)
   \<and> (\<forall>k'. set (fst (Add k v (fst (Add k v rs))) k') = set (fst (Add k v rs) k')
          \<and> length (fst (Add k v (fst (Add k v rs))) k') = length (fst (Add k v rs) k'))
   \<and> (Contains k v rs \<longrightarrow> Add k v rs = (rs, False))
   \<and> (\<not> Contains k v rs \<longrightarrow> Remove k v rs = (rs, False))
   \<and> (noDuplicates rs \<longrightarrow> noDuplicates (fst (Add k v rs)) \<and> noDuplicates (fst (Remove k v rs)))
   \<and> noDuplicates (fold applyEdit es emptyRuleListSet)"
proof -
  have "noDuplicates emptyRuleListSet"
    by (simp add: noDuplicates_def emptyRuleListSet_def)
  then have "noDuplicates (fold applyEdit es emptyRuleListSet)"
    by (rule noDuplicates_fold)
  then show ?thesis
    by (simp add: Add_twice Add_present Remove_absent noDuplicates_Add noDuplicates_Remove)
qed

theorem add_and_remove_are_idempotent_witness:
  "fst (Add DNS ''example.com'' (fst (Add DNS ''example.com'' emptyRuleListSet))) DNS = [''example.com'']
   \<and> snd (Add DNS ''example.com'' (fst (Add DNS ''example.com'' emptyRuleListSet))) = False
   \<and> Remove Email ''@example.com'' emptyRuleListSet = (emptyRuleListSet, False)
   \<and> noDuplicates (fst (Add DNS ''example.com'' emptyRuleListSet))
   \<and> noDuplicates (fold applyEdit [AddEdit DNS ''a'', AddEdit DNS ''a'', RemoveEdit DNS ''b'']
        emptyRuleListSet)"
proof -
  have c: "\<not> Contains Email ''@example.com'' emptyRuleListSet"
    by (simp add: Contains_def emptyRuleListSet_def)
  have n: "noDuplicates emptyRuleListSet"
    by (simp add: noDuplicates_def emptyRuleListSet_def)
  have one: "fst (Add DNS ''example.com'' emptyRuleListSet) DNS = [''example.com'']"
    by (simp add: Add_def addRaw_def emptyRuleListSet_def)
  from add_and_remove_are_idempotent[of DNS "''example.com''" emptyRuleListSet
      "[AddEdit DNS ''a'', AddEdit DNS ''a'', RemoveEdit DNS ''b'']"]
    add_and_remove_are_idempotent[of Email "''@example.com''" emptyRuleListSet "[]"] c n one
  show ?thesis by simp
qed

subsection \<open>Splitting and lower case\<close>

lemma afterDots_iff: "r \<in> set (afterDots n) \<longleftrightarrow> (\<exists>pre. n = pre @ ''.'' @ r)"
proof (induction n)
  case Nil
  then show ?case by simp
next
  case (Cons c cs)
  show ?case
  proof
    assume "r \<in> set (afterDots (c # cs))"
    then consider "c = CHR ''.''" "r = cs" | "r \<in> set (afterDots cs)"
      by (auto split: if_splits)
    then show "\<exists>pre. c # cs = pre @ ''.'' @ r"
    proof cases
      case 1
      then have "c # cs = [] @ ''.'' @ r" by simp
      then show ?thesis by blast
    next
      case 2
      with Cons.IH obtain pre where "cs = pre @ ''.'' @ r" by blast
      then have "c # cs = (c # pre) @ ''.'' @ r" by simp
      then show ?thesis by blast
    qed
  next
    assume "\<exists>pre. c # cs = pre @ ''.'' @ r"
    then obtain pre where p: "c # cs = pre @ ''.'' @ r" by blast
    show "r \<in> set (afterDots (c # cs))"
    proof (cases pre)
      case Nil
      with p show ?thesis by simp
    next
      case (Cons d ds)
      with p have "cs = ds @ ''.'' @ r" by simp
      with Cons.IH have "r \<in> set (afterDots cs)" by blast
      then show ?thesis by simp
    qed
  qed
qed

lemma dnsMatches_wildcard:
  "dnsMatches (''*.'' @ rest) name \<longleftrightarrow> (\<exists>pre. name = pre @ ''.'' @ rest)"
  by (simp add: dnsMatches_def isWildcard_def afterDots_iff)

lemma not_prefix_scheme: "c \<noteq> CHR '':'' \<Longrightarrow> \<not> prefix ''://'' (c # cs)"
  by auto

lemma splitScheme_append:
  "CHR '':'' \<notin> set s \<Longrightarrow> splitScheme (s @ ''://'' @ r) = Some (s, r)"
proof (induction s)
  case Nil
  show ?case by simp
next
  case (Cons c s)
  from Cons.prems have ne: "c \<noteq> CHR '':''" and "CHR '':'' \<notin> set s"
    by auto
  with Cons.IH have ih: "splitScheme (s @ ''://'' @ r) = Some (s, r)"
    by blast
  have "splitScheme (c # (s @ ''://'' @ r)) =
      map_option (\<lambda>(a, b). (c # a, b)) (splitScheme (s @ ''://'' @ r))"
    by (simp only: splitScheme.simps not_prefix_scheme[OF ne] if_False)
  with ih show ?case by simp
qed


lemma splitScheme_None: "\<not> sublist ''://'' d \<Longrightarrow> splitScheme d = None"
proof (induction d)
  case Nil
  show ?case by (simp only: splitScheme.simps)
next
  case (Cons c cs)
  have np: "\<not> prefix ''://'' (c # cs)"
    using Cons.prems by (meson prefix_imp_sublist)
  have "\<not> sublist ''://'' cs"
    using Cons.prems by (meson sublist_Cons_right)
  then have ih: "splitScheme cs = None"
    by (rule Cons.IH)
  show ?case
    by (simp only: splitScheme.simps np if_False ih option.map)
qed


lemma split_host_path:
  assumes "CHR ''/'' \<notin> set h" "p = [] \<or> hd p = CHR ''/''"
  shows "takeWhile notSlash (h @ p) = h" "dropWhile notSlash (h @ p) = p"
proof -
  have h: "\<And>x. x \<in> set h \<Longrightarrow> notSlash x"
    using assms(1) by (auto simp: notSlash_def)
  have "takeWhile notSlash p = []" "dropWhile notSlash p = p"
    using assms(2) by (cases p; simp add: notSlash_def)+
  then show "takeWhile notSlash (h @ p) = h" "dropWhile notSlash (h @ p) = p"
    using h by (simp_all add: takeWhile_append2 dropWhile_append2)
qed

lemma parseURI_uriOf:
  assumes "wellFormedParts s h p"
  shows "parseURI (uriOf s h p) = \<lparr>uriScheme = s, uriHost = h, uriPath = p\<rparr>"
proof -
  have c: "CHR '':'' \<notin> set s" and h: "CHR ''/'' \<notin> set h" and p: "p = [] \<or> hd p = CHR ''/''"
    using assms by (simp_all add: wellFormedParts_def)
  have "splitScheme (s @ ''://'' @ (h @ p)) = Some (s, h @ p)"
    using c by (rule splitScheme_append)
  then have "splitScheme (uriOf s h p) = Some (s, h @ p)"
    by (simp add: uriOf_def)
  moreover note split_host_path[OF h p]
  ultimately show ?thesis by (simp add: parseURI_def)
qed

lemma toLower_idem: "toLower (toLower c) = toLower c"
  by (simp add: toLower_def)

lemma lower_idem: "lower (lower s) = lower s"
  by (simp add: lower_def toLower_idem)

lemma toLower_star: "toLower c = CHR ''*'' \<longleftrightarrow> c = CHR ''*''"
  by (auto simp: toLower_def split: if_splits)

lemma toLower_dot: "toLower c = CHR ''.'' \<longleftrightarrow> c = CHR ''.''"
  by (auto simp: toLower_def split: if_splits)

lemma toLower_star': "CHR ''*'' = toLower c \<longleftrightarrow> CHR ''*'' = c"
  using toLower_star[of c] by auto

lemma toLower_dot': "CHR ''.'' = toLower c \<longleftrightarrow> CHR ''.'' = c"
  using toLower_dot[of c] by auto

lemma isWildcard_lower: "isWildcard (lower d) = isWildcard d"
proof (cases d)
  case Nil
  then show ?thesis by (simp add: isWildcard_def lower_def)
next
  case (Cons a d')
  show ?thesis
  proof (cases d')
    case Nil
    with Cons show ?thesis by (simp add: isWildcard_def lower_def)
  next
    case (Cons b d'')
    with \<open>d = a # d'\<close> show ?thesis
      by (simp add: isWildcard_def lower_def toLower_star' toLower_dot')
  qed
qed

lemma lower_wildcard: "lower (''*.'' @ rest) = ''*.'' @ lower rest"
  by (simp add: lower_def toLower_def)

subsection \<open>The wildcard of the DNS matcher\<close>

lemmas eval_defs = dnsMatches_def isWildcard_def lower_def toLower_def uriMatches_def
  parseURI_def parseConstraint_def notSlash_def Let_def suffix_to_prefix

text \<open>
  Claim C7. The wildcard pattern \<open>*.example.com\<close> matches \<open>a.example.com\<close> and
  \<open>b.a.example.com\<close> and does not match \<open>example.com\<close>. In general a pattern \<open>*.rest\<close>
  matches every name made of a label, a dot and \<open>rest\<close>, and the names it matches are those
  that end with a dot followed by \<open>rest\<close>.
\<close>

theorem wildcard_matches_names_under_domain:
  "dnsMatches ''*.example.com'' ''a.example.com''
   \<and> dnsMatches ''*.example.com'' ''b.a.example.com''
   \<and> \<not> dnsMatches ''*.example.com'' ''example.com''
   \<and> (\<forall>label rest. dnsMatches (''*.'' @ rest) (label @ ''.'' @ rest))
   \<and> (\<forall>rest name. dnsMatches (''*.'' @ rest) name = (\<exists>pre. name = pre @ ''.'' @ rest))"
proof -
  have 1: "dnsMatches ''*.example.com'' ''a.example.com''"
    by (simp add: dnsMatches_def isWildcard_def)
  have 2: "dnsMatches ''*.example.com'' ''b.a.example.com''"
    by (simp add: dnsMatches_def isWildcard_def)
  have 3: "\<not> dnsMatches ''*.example.com'' ''example.com''"
    by (simp add: dnsMatches_def isWildcard_def)
  have 4: "\<forall>label rest. dnsMatches (''*.'' @ rest) (label @ ''.'' @ rest)"
    unfolding dnsMatches_wildcard by blast
  have 5: "\<forall>rest name. dnsMatches (''*.'' @ rest) name = (\<exists>pre. name = pre @ ''.'' @ rest)"
    using dnsMatches_wildcard by blast
  from 1 2 3 4 5 show ?thesis by blast
qed

theorem wildcard_matches_names_under_domain_witness:
  "dnsMatches ''*.internal.example.org'' ''db.internal.example.org''"
proof -
  have "dnsMatches (''*.'' @ ''internal.example.org'') (''db'' @ ''.'' @ ''internal.example.org'')"
    using wildcard_matches_names_under_domain by blast
  then show ?thesis by simp
qed

subsection \<open>Structured URI constraints\<close>

lemma parseConstraint_bare: "\<not> sublist ''://'' d \<Longrightarrow> parseConstraint d = DomainOnly d"
  by (simp add: parseConstraint_def splitScheme_None)

lemma parseConstraint_uriOf:
  assumes "wellFormedParts s h p"
  shows "parseConstraint (uriOf s h p) =
     (if p = [] then SchemeHost s h
      else if suffix ''/*'' p then PathPrefix s h (butlast p)
      else ExactPath s h p)"
proof -
  have c: "CHR '':'' \<notin> set s" and h: "CHR ''/'' \<notin> set h" and p: "p = [] \<or> hd p = CHR ''/''"
    using assms by (simp_all add: wellFormedParts_def)
  have "splitScheme (s @ ''://'' @ (h @ p)) = Some (s, h @ p)"
    using c by (rule splitScheme_append)
  then have sp: "splitScheme (uriOf s h p) = Some (s, h @ p)"
    by (simp add: uriOf_def)
  show ?thesis
    by (simp only: parseConstraint_def sp option.case prod.case Let_def split_host_path[OF h p])
qed

lemma wellFormedParts_star:
  "wellFormedParts s h p \<Longrightarrow> wellFormedParts s h (p @ ''/*'')"
  by (cases p) (simp_all add: wellFormedParts_def)

lemma uriMatches_bare:
  assumes "\<not> sublist ''://'' d" "wellFormedParts s h p"
  shows "uriMatches d (uriOf s h p) = dnsMatches (lower d) (lower h)"
  by (simp add: uriMatches_def parseConstraint_bare[OF assms(1)] parseURI_uriOf[OF assms(2)])

lemma uriMatches_bare_literal:
  assumes "\<not> sublist ''://'' d" "\<not> isWildcard d" "wellFormedParts s h p"
  shows "uriMatches d (uriOf s h p) = (lower d = lower h)"
  using assms(2)
  by (simp add: uriMatches_bare[OF assms(1,3)] dnsMatches_def isWildcard_lower lower_idem)

lemma uriMatches_bare_wildcard:
  assumes "\<not> sublist ''://'' (''*.'' @ rest)" "wellFormedParts s h p"
  shows "uriMatches (''*.'' @ rest) (uriOf s h p) = (\<exists>pre. lower h = pre @ ''.'' @ lower rest)"
  unfolding uriMatches_bare[OF assms] lower_wildcard dnsMatches_wildcard ..

lemma uriMatches_scheme_host:
  assumes "wellFormedParts ps ph []" "wellFormedParts s h p"
  shows "uriMatches (uriOf ps ph []) (uriOf s h p) = (lower ps = lower s \<and> lower ph = lower h)"
  by (simp add: uriMatches_def parseConstraint_uriOf[OF assms(1)] parseURI_uriOf[OF assms(2)])

lemma uriMatches_exact_path:
  assumes "wellFormedParts ps ph pp" "pp \<noteq> []" "\<not> suffix ''/*'' pp" "wellFormedParts s h p"
  shows "uriMatches (uriOf ps ph pp) (uriOf s h p) =
     (lower ps = lower s \<and> lower ph = lower h \<and> pp = p)"
  using assms(2,3)
  by (simp add: uriMatches_def parseConstraint_uriOf[OF assms(1)] parseURI_uriOf[OF assms(4)])

lemma uriMatches_path_prefix:
  assumes "wellFormedParts ps ph pp" "wellFormedParts s h p"
  shows "uriMatches (uriOf ps ph (pp @ ''/*'')) (uriOf s h p) =
     (lower ps = lower s \<and> lower ph = lower h \<and> prefix (pp @ ''/'') p)"
proof -
  have b: "butlast (pp @ ''/*'') = pp @ ''/''"
    by (simp add: butlast_append)
  have s: "suffix ''/*'' (pp @ ''/*'')"
    by (simp add: suffix_def)
  show ?thesis
    by (simp add: uriMatches_def parseConstraint_uriOf[OF wellFormedParts_star[OF assms(1)]]
        parseURI_uriOf[OF assms(2)] b s del: butlast_append)
qed

text \<open>
  Claim C8. For a candidate URI with scheme \<open>s\<close>, host \<open>h\<close> and path \<open>p\<close>: a constraint
  with no \<open>://\<close> matches exactly when its text is the host (when the DNS matcher matches
  the host, for a constraint that starts with \<open>*.\<close>), whatever scheme and path; \<open>scheme://host\<close> matches exactly when scheme and host agree, whatever the
  path; \<open>scheme://host/path\<close> matches exactly when moreover the path is the same;
  \<open>scheme://host/path/*\<close> matches exactly when moreover the candidate's path starts with
  \<open>path/\<close>. Scheme and host are compared without regard to case, paths as they are. The
  constraint \<open>https://api.example.com/api/*\<close> matches \<open>https://api.example.com/api/v1/x\<close>
  and matches neither \<open>http://api.example.com/api/v1/x\<close> nor \<open>https://api.example.com/other\<close>.
\<close>

theorem structured_uri_constraint_matching:
  "(\<forall>d s h p. \<not> sublist ''://'' d \<and> \<not> isWildcard d \<and> wellFormedParts s h p \<longrightarrow>
        uriMatches d (uriOf s h p) = (lower d = lower h))
   \<and> (\<forall>d s h p. \<not> sublist ''://'' d \<and> wellFormedParts s h p \<longrightarrow>
        uriMatches d (uriOf s h p) = dnsMatches (lower d) (lower h))
   \<and> (\<forall>ps ph s h p. wellFormedParts ps ph [] \<and> wellFormedParts s h p \<longrightarrow>
        uriMatches (uriOf ps ph []) (uriOf s h p) = (lower ps = lower s \<and> lower ph = lower h))
   \<and> (\<forall>ps ph pp s h p.
        wellFormedParts ps ph pp \<and> pp \<noteq> [] \<and> \<not> suffix ''/*'' pp \<and> wellFormedParts s h p \<longrightarrow>
        uriMatches (uriOf ps ph pp) (uriOf s h p) =
          (lower ps = lower s \<and> lower ph = lower h \<and> pp = p))
   \<and> (\<forall>ps ph pp s h p. wellFormedParts ps ph pp \<and> wellFormedParts s h p \<longrightarrow>
        uriMatches (uriOf ps ph (pp @ ''/*'')) (uriOf s h p) =
          (lower ps = lower s \<and> lower ph = lower h \<and> prefix (pp @ ''/'') p))
   \<and> uriMatches ''https://api.example.com/api/*'' ''https://api.example.com/api/v1/x''
   \<and> \<not> uriMatches ''https://api.example.com/api/*'' ''http://api.example.com/api/v1/x''
   \<and> \<not> uriMatches ''https://api.example.com/api/*'' ''https://api.example.com/other''"
proof -
  have 1: "uriMatches ''https://api.example.com/api/*'' ''https://api.example.com/api/v1/x''"
    by (simp add: eval_defs)
  have 2: "\<not> uriMatches ''https://api.example.com/api/*'' ''http://api.example.com/api/v1/x''"
    by (simp add: eval_defs)
  have 3: "\<not> uriMatches ''https://api.example.com/api/*'' ''https://api.example.com/other''"
    by (simp add: eval_defs)
  have 4: "\<forall>d s h p. \<not> sublist ''://'' d \<and> \<not> isWildcard d \<and> wellFormedParts s h p \<longrightarrow>
        uriMatches d (uriOf s h p) = (lower d = lower h)"
    by (intro allI impI, elim conjE, rule uriMatches_bare_literal)
  have 8: "\<forall>d s h p. \<not> sublist ''://'' d \<and> wellFormedParts s h p \<longrightarrow>
        uriMatches d (uriOf s h p) = dnsMatches (lower d) (lower h)"
    by (intro allI impI, elim conjE, rule uriMatches_bare)
  have 5: "\<forall>ps ph s h p. wellFormedParts ps ph [] \<and> wellFormedParts s h p \<longrightarrow>
        uriMatches (uriOf ps ph []) (uriOf s h p) = (lower ps = lower s \<and> lower ph = lower h)"
    by (intro allI impI, elim conjE, rule uriMatches_scheme_host)
  have 6: "\<forall>ps ph pp s h p.
        wellFormedParts ps ph pp \<and> pp \<noteq> [] \<and> \<not> suffix ''/*'' pp \<and> wellFormedParts s h p \<longrightarrow>
        uriMatches (uriOf ps ph pp) (uriOf s h p) =
          (lower ps = lower s \<and> lower ph = lower h \<and> pp = p)"
    by (intro allI impI, elim conjE, rule uriMatches_exact_path)
  have 7: "\<forall>ps ph pp s h p. wellFormedParts ps ph pp \<and> wellFormedParts s h p \<longrightarrow>
        uriMatches (uriOf ps ph (pp @ ''/*'')) (uriOf s h p) =
          (lower ps = lower s \<and> lower ph = lower h \<and> prefix (pp @ ''/'') p)"
    by (intro allI impI, elim conjE, rule uriMatches_path_prefix)
  from 4 8 5 6 7 1 2 3 show ?thesis
    by (intro conjI)
qed

theorem structured_uri_constraint_matching_witness:
  "uriMatches ''example.com'' ''spiffe://Example.COM/workload''
   \<and> uriMatches ''*.example.com'' ''spiffe://a.Example.COM/workload''
   \<and> uriMatches ''https://example.com'' ''HTTPS://Example.com/any/path''
   \<and> uriMatches ''https://example.com/a'' ''https://example.com/a''
   \<and> \<not> uriMatches ''https://example.com/a'' ''https://example.com/A''
   \<and> uriMatches ''spiffe://trust.domain/workload/*'' ''spiffe://trust.domain/workload/db''"
proof -
  have d: "\<not> sublist ''://'' ''example.com''"
    by (simp add: sublist_Cons_right)
  have dw: "\<not> sublist ''://'' ''*.example.com''"
    by (simp add: sublist_Cons_right)
  have cw: "wellFormedParts ''spiffe'' ''a.Example.COM'' ''/workload''"
    by (simp add: wellFormedParts_def)
  have w: "\<not> isWildcard ''example.com''"
    by (simp add: isWildcard_def)
  have c1: "wellFormedParts ''spiffe'' ''Example.COM'' ''/workload''"
    and c2: "wellFormedParts ''HTTPS'' ''Example.com'' ''/any/path''"
    and c3: "wellFormedParts ''https'' ''example.com'' ''/a''"
    and c4: "wellFormedParts ''https'' ''example.com'' ''/A''"
    and c5: "wellFormedParts ''spiffe'' ''trust.domain'' ''/workload/db''"
    and p2: "wellFormedParts ''https'' ''example.com'' []"
    and p5: "wellFormedParts ''spiffe'' ''trust.domain'' ''/workload''"
    by (simp_all add: wellFormedParts_def)
  have n3: "''/a'' \<noteq> []" "\<not> suffix ''/*'' ''/a''"
    by (simp_all add: suffix_to_prefix)
  note t = structured_uri_constraint_matching
  note bare = t[THEN conjunct1, rule_format]
  note wild = t[THEN conjunct2, THEN conjunct1, rule_format]
  note host = t[THEN conjunct2, THEN conjunct2, THEN conjunct1, rule_format]
  note exact = t[THEN conjunct2, THEN conjunct2, THEN conjunct2, THEN conjunct1, rule_format]
  note pref =
    t[THEN conjunct2, THEN conjunct2, THEN conjunct2, THEN conjunct2, THEN conjunct1, rule_format]
  have "uriMatches ''example.com'' (uriOf ''spiffe'' ''Example.COM'' ''/workload'')"
    unfolding bare[OF conjI[OF d conjI[OF w c1]]] by (simp add: lower_def toLower_def)
  moreover have "uriMatches ''*.example.com'' (uriOf ''spiffe'' ''a.Example.COM'' ''/workload'')"
    unfolding wild[OF conjI[OF dw cw]] by (simp add: eval_defs)
  moreover have "uriMatches (uriOf ''https'' ''example.com'' [])
      (uriOf ''HTTPS'' ''Example.com'' ''/any/path'')"
    unfolding host[OF conjI[OF p2 c2]] by (simp add: lower_def toLower_def)
  moreover have "uriMatches (uriOf ''https'' ''example.com'' ''/a'')
      (uriOf ''https'' ''example.com'' ''/a'')"
    unfolding exact[OF conjI[OF c3 conjI[OF n3(1) conjI[OF n3(2) c3]]]] by simp
  moreover have "\<not> uriMatches (uriOf ''https'' ''example.com'' ''/a'')
      (uriOf ''https'' ''example.com'' ''/A'')"
    unfolding exact[OF conjI[OF c3 conjI[OF n3(1) conjI[OF n3(2) c4]]]] by simp
  moreover have "uriMatches (uriOf ''spiffe'' ''trust.domain'' (''/workload'' @ ''/*''))
      (uriOf ''spiffe'' ''trust.domain'' ''/workload/db'')"
    unfolding pref[OF conjI[OF p5 c5]] by simp
  ultimately show ?thesis by (simp add: uriOf_def)
qed

end
